theory Spec2Isabelle
  imports Main
begin

section \<open>The NVIDIA GPU information store (agent/gpu/nvidia_gpu_manager.go)\<close>

text \<open>
  The store keeps a driver version, a runtime version and a list of GPU identifiers, and
  can seed them from a JSON file at start-up. The embedding is sequential: every method
  takes the store and returns the store it leaves behind. Each method of the source
  acquires the mutex on entry and releases it by \<^verbatim>\<open>defer\<close> on return, so between
  two calls the mutex is free; it holds no data and is not a field of the record below.
  A Go \<^verbatim>\<open>[]string\<close> is a list; the nil slice and the empty slice are both \<open>[]\<close>.
  A Go \<^verbatim>\<open>[]byte\<close> is a \<open>string\<close>, whose characters are bytes.
\<close>

subsection \<open>Errors\<close>

text \<open>
  A Go \<^verbatim>\<open>error\<close> value is \<open>error option\<close>, with \<open>None\<close> for \<^verbatim>\<open>nil\<close>.
  \<open>ErrNotExist\<close> stands for the errors that \<^verbatim>\<open>os.IsNotExist\<close> recognises,
  \<open>ErrPermission\<close> and \<open>ErrOther\<close> for the other failures of the operating system and of
  the decoder, and \<open>withMessage\<close> for an error annotated by \<^verbatim>\<open>errors.Wrapf\<close>.
\<close>

datatype error =
    ErrNotExist
  | ErrPermission
  | ErrOther string
  | withMessage error string

fun os_IsNotExist :: "error option \<Rightarrow> bool" where
  "os_IsNotExist None = False"
| "os_IsNotExist (Some ErrNotExist) = True"
| "os_IsNotExist (Some ErrPermission) = False"
| "os_IsNotExist (Some (ErrOther s)) = False"
| "os_IsNotExist (Some (withMessage e s)) = False"

text \<open>\<^verbatim>\<open>errors.Wrapf(err, msg)\<close> is \<^verbatim>\<open>nil\<close> for a \<^verbatim>\<open>nil\<close> error and annotates any other.\<close>

fun Wrapf :: "error option \<Rightarrow> string \<Rightarrow> error option" where
  "Wrapf None msg = None"
| "Wrapf (Some err) msg = Some (withMessage err msg)"

subsection \<open>The store\<close>

record NvidiaGPUManager =
  DriverVersion :: string
  NvidiaDockerVersion :: string
  GPUIDs :: "string list"

definition GPUInfoDirPath :: string where
  "GPUInfoDirPath = ''/var/lib/ecs/gpu''"

definition NvidiaGPUInfoFilePath :: string where
  "NvidiaGPUInfoFilePath = GPUInfoDirPath @ ''/nvidia-gpu-info.json''"

text \<open>\<^verbatim>\<open>&NvidiaGPUManager{}\<close>: every field at its zero value.\<close>

definition NewNvidiaGPUManager :: NvidiaGPUManager where
  "NewNvidiaGPUManager = \<lparr>DriverVersion = [], NvidiaDockerVersion = [], GPUIDs = []\<rparr>"

definition SetGPUIDs :: "string list \<Rightarrow> NvidiaGPUManager \<Rightarrow> NvidiaGPUManager" where
  "SetGPUIDs gpuIDs n = n\<lparr>GPUIDs := gpuIDs\<rparr>"

definition GetGPUIDs :: "NvidiaGPUManager \<Rightarrow> string list" where
  "GetGPUIDs n = GPUIDs n"

definition SetDriverVersion :: "string \<Rightarrow> NvidiaGPUManager \<Rightarrow> NvidiaGPUManager" where
  "SetDriverVersion version n = n\<lparr>DriverVersion := version\<rparr>"

definition GetDriverVersion :: "NvidiaGPUManager \<Rightarrow> string" where
  "GetDriverVersion n = DriverVersion n"

definition SetRuntimeVersion :: "string \<Rightarrow> NvidiaGPUManager \<Rightarrow> NvidiaGPUManager" where
  "SetRuntimeVersion version n = n\<lparr>NvidiaDockerVersion := version\<rparr>"

definition GetRuntimeVersion :: "NvidiaGPUManager \<Rightarrow> string" where
  "GetRuntimeVersion n = NvidiaDockerVersion n"

subsection \<open>The operating system and the decoder\<close>

text \<open>
  What \<^verbatim>\<open>Initialize\<close> calls outside this package is a parameter of the model: the error
  of \<^verbatim>\<open>os.Stat\<close> on a path, the file descriptor or error of \<^verbatim>\<open>os.Open\<close>, the bytes
  or error of \<^verbatim>\<open>ioutil.ReadAll\<close> on a descriptor, and \<^verbatim>\<open>json.Unmarshal\<close>, which
  takes the bytes and the value it decodes into and gives back its error and that value
  as it has left it.
\<close>

record world =
  os_Stat :: "string \<Rightarrow> error option"
  os_Open :: "string \<Rightarrow> error + nat"
  ioutil_ReadAll :: "nat \<Rightarrow> error + string"
  json_Unmarshal :: "string \<Rightarrow> NvidiaGPUManager \<Rightarrow> error option \<times> NvidiaGPUManager"

text \<open>
  \<^verbatim>\<open>GPUInfoFileExists\<close> and \<^verbatim>\<open>GetGPUInfoJSON\<close> are package variables that hold
  \<^verbatim>\<open>CheckForGPUInfoFile\<close> and \<^verbatim>\<open>GetGPUInfo\<close>. The deferred \<^verbatim>\<open>Close\<close> of
  \<^verbatim>\<open>GetGPUInfo\<close> drops its result and has no part in what is returned.
\<close>

definition CheckForGPUInfoFile :: "world \<Rightarrow> bool" where
  "CheckForGPUInfoFile w = (\<not> os_IsNotExist (os_Stat w NvidiaGPUInfoFilePath))"

definition GPUInfoFileExists :: "world \<Rightarrow> bool" where
  "GPUInfoFileExists = CheckForGPUInfoFile"

definition GetGPUInfo :: "world \<Rightarrow> error + string" where
  "GetGPUInfo w =
     (case os_Open w NvidiaGPUInfoFilePath of
        Inl err \<Rightarrow> Inl err
      | Inr gpuInfo \<Rightarrow>
          (case ioutil_ReadAll w gpuInfo of
             Inl err \<Rightarrow> Inl err
           | Inr gpuJSON \<Rightarrow> Inr gpuJSON))"

definition GetGPUInfoJSON :: "world \<Rightarrow> error + string" where
  "GetGPUInfoJSON = GetGPUInfo"

text \<open>
  \<^verbatim>\<open>Initialize\<close> returns its error and the store. The decoder writes into a local
  \<^verbatim>\<open>nvidiaGPUInfo\<close>, which starts at the zero value; the three setters run on the
  store only after both the read and the decoding have succeeded.
\<close>

definition Initialize :: "world \<Rightarrow> NvidiaGPUManager \<Rightarrow> error option \<times> NvidiaGPUManager" where
  "Initialize w n =
     (if GPUInfoFileExists w then
        (case GetGPUInfoJSON w of
           Inl err \<Rightarrow> (Wrapf (Some err) ''could not read GPU file content'', n)
         | Inr gpuJSON \<Rightarrow>
             (case json_Unmarshal w gpuJSON NewNvidiaGPUManager of
                (Some err, nvidiaGPUInfo) \<Rightarrow>
                  (Wrapf (Some err) ''could not unmarshal GPU file content'', n)
              | (None, nvidiaGPUInfo) \<Rightarrow>
                  (None,
                   SetRuntimeVersion (GetRuntimeVersion nvidiaGPUInfo)
                     (SetGPUIDs (GetGPUIDs nvidiaGPUInfo)
                        (SetDriverVersion (GetDriverVersion nvidiaGPUInfo) n)))))
      else (None, n))"

subsection \<open>Sample worlds\<close>

text \<open>
  Concrete worlds on which the theorems below are run. \<open>sample_Unmarshal\<close> lists what
  \<^verbatim>\<open>json.Unmarshal\<close> does on four documents: it fills the fields whose keys occur,
  leaves the others as they were, and fails on the truncated document.
\<close>

definition snapshot_doc :: string where
  \<open>snapshot_doc =
     ''{"DriverVersion":"450.80.02","NvidiaDockerVersion":"2.5.0","GPUIDs":["GPU-0","GPU-1"]}''\<close>

definition driver_only_doc :: string where
  \<open>driver_only_doc = ''{"DriverVersion":"450.80.02"}''\<close>

definition empty_doc :: string where
  \<open>empty_doc = ''{}''\<close>

definition truncated_doc :: string where
  \<open>truncated_doc = ''{"DriverVersion":''\<close>

definition sample_Unmarshal ::
  "string \<Rightarrow> NvidiaGPUManager \<Rightarrow> error option \<times> NvidiaGPUManager" where
  "sample_Unmarshal data v =
     (if data = snapshot_doc then
        (None, v\<lparr>DriverVersion := ''450.80.02'', NvidiaDockerVersion := ''2.5.0'',
                  GPUIDs := [''GPU-0'', ''GPU-1'']\<rparr>)
      else if data = driver_only_doc then (None, v\<lparr>DriverVersion := ''450.80.02''\<rparr>)
      else if data = empty_doc then (None, v)
      else (Some (ErrOther ''unexpected end of JSON input''), v))"

text \<open>The file is there, opens as descriptor 3 and reads as \<open>data\<close>.\<close>

definition file_world :: "string \<Rightarrow> world" where
  "file_world data =
     \<lparr>os_Stat = (\<lambda>p. if p = NvidiaGPUInfoFilePath then None else Some ErrNotExist),
      os_Open = (\<lambda>p. if p = NvidiaGPUInfoFilePath then Inr 3 else Inl ErrNotExist),
      ioutil_ReadAll = (\<lambda>fd. if fd = 3 then Inr data else Inl (ErrOther ''bad file descriptor'')),
      json_Unmarshal = sample_Unmarshal\<rparr>"

text \<open>No file at any path.\<close>

definition no_file_world :: world where
  "no_file_world =
     \<lparr>os_Stat = (\<lambda>p. Some ErrNotExist),
      os_Open = (\<lambda>p. Inl ErrNotExist),
      ioutil_ReadAll = (\<lambda>fd. Inl (ErrOther ''bad file descriptor'')),
      json_Unmarshal = sample_Unmarshal\<rparr>"

text \<open>The directory cannot be searched: both \<^verbatim>\<open>stat\<close> and \<^verbatim>\<open>open\<close> are refused.\<close>

definition denied_world :: world where
  "denied_world =
     \<lparr>os_Stat = (\<lambda>p. Some ErrPermission),
      os_Open = (\<lambda>p. Inl ErrPermission),
      ioutil_ReadAll = (\<lambda>fd. Inl (ErrOther ''bad file descriptor'')),
      json_Unmarshal = sample_Unmarshal\<rparr>"

text \<open>The path is a directory: it is there and opens, and reading it fails.\<close>

definition directory_world :: world where
  "directory_world =
     \<lparr>os_Stat = (\<lambda>p. None),
      os_Open = (\<lambda>p. Inr 3),
      ioutil_ReadAll = (\<lambda>fd. Inl (ErrOther ''is a directory'')),
      json_Unmarshal = sample_Unmarshal\<rparr>"

text \<open>A store that already holds values.\<close>

definition used_store :: NvidiaGPUManager where
  "used_store =
     \<lparr>DriverVersion = ''418.40.04'', NvidiaDockerVersion = ''2.0.3'', GPUIDs = [''GPU-7'']\<rparr>"

section \<open>Properties\<close>

subsection \<open>The branches of Initialize\<close>

lemmas store_defs = SetGPUIDs_def GetGPUIDs_def SetDriverVersion_def GetDriverVersion_def
  SetRuntimeVersion_def GetRuntimeVersion_def

lemmas read_defs = GPUInfoFileExists_def CheckForGPUInfoFile_def GetGPUInfoJSON_def
  GetGPUInfo_def

lemma Initialize_absent:
  "\<not> GPUInfoFileExists w \<Longrightarrow> Initialize w n = (None, n)"
  by (simp add: Initialize_def)

lemma Initialize_unreadable:
  "GPUInfoFileExists w \<Longrightarrow> GetGPUInfoJSON w = Inl err \<Longrightarrow>
   Initialize w n = (Some (withMessage err ''could not read GPU file content''), n)"
  by (simp add: Initialize_def)

lemma Initialize_undecodable:
  "GPUInfoFileExists w \<Longrightarrow> GetGPUInfoJSON w = Inr gpuJSON \<Longrightarrow>
   json_Unmarshal w gpuJSON NewNvidiaGPUManager = (Some err, v) \<Longrightarrow>
   Initialize w n = (Some (withMessage err ''could not unmarshal GPU file content''), n)"
  by (simp add: Initialize_def)

text \<open>
  The three setters together replace every field of the store, so after a successful
  decoding the store is the decoded value, whatever it held before.
\<close>

lemma Initialize_decoded:
  "GPUInfoFileExists w \<Longrightarrow> GetGPUInfoJSON w = Inr gpuJSON \<Longrightarrow>
   json_Unmarshal w gpuJSON NewNvidiaGPUManager = (None, v) \<Longrightarrow>
   Initialize w n = (None, v)"
  by (simp add: Initialize_def store_defs)

lemma GetGPUInfoJSON_read:
  "os_Open w NvidiaGPUInfoFilePath = Inr fd \<Longrightarrow> ioutil_ReadAll w fd = Inr gpuJSON \<Longrightarrow>
   GetGPUInfoJSON w = Inr gpuJSON"
  by (simp add: GetGPUInfoJSON_def GetGPUInfo_def)

lemma Initialize_cases:
  obtains (absent) "\<not> GPUInfoFileExists w" "Initialize w n = (None, n)"
  | (unreadable) err where "GPUInfoFileExists w" "GetGPUInfoJSON w = Inl err"
      "Initialize w n = (Some (withMessage err ''could not read GPU file content''), n)"
  | (undecodable) gpuJSON err v where "GPUInfoFileExists w" "GetGPUInfoJSON w = Inr gpuJSON"
      "json_Unmarshal w gpuJSON NewNvidiaGPUManager = (Some err, v)"
      "Initialize w n = (Some (withMessage err ''could not unmarshal GPU file content''), n)"
  | (decoded) gpuJSON v where "GPUInfoFileExists w" "GetGPUInfoJSON w = Inr gpuJSON"
      "json_Unmarshal w gpuJSON NewNvidiaGPUManager = (None, v)"
      "Initialize w n = (None, v)"
proof (cases "GPUInfoFileExists w")
  case False
  then show ?thesis using absent Initialize_absent by blast
next
  case ex: True
  show ?thesis
  proof (cases "GetGPUInfoJSON w")
    case (Inl err)
    then show ?thesis using unreadable ex Initialize_unreadable by blast
  next
    case (Inr gpuJSON)
    obtain r v where u: "json_Unmarshal w gpuJSON NewNvidiaGPUManager = (r, v)"
      by (cases "json_Unmarshal w gpuJSON NewNvidiaGPUManager")
    show ?thesis
    proof (cases r)
      case None
      then show ?thesis using decoded ex Inr u Initialize_decoded by blast
    next
      case (Some err)
      then show ?thesis using undecodable ex Inr u Initialize_undecodable by blast
    qed
  qed
qed

text \<open>The outcome of \<^verbatim>\<open>Initialize\<close> does not depend on the store it is called on.\<close>

lemma Initialize_error_independent:
  "fst (Initialize w m) = fst (Initialize w n)"
  by (cases w n rule: Initialize_cases)
     (simp_all add: Initialize_absent Initialize_unreadable Initialize_undecodable
        Initialize_decoded)

lemma Initialize_same_world:
  "Initialize w (snd (Initialize w n)) = Initialize w n"
  by (cases w n rule: Initialize_cases)
     (simp_all add: Initialize_absent Initialize_unreadable Initialize_undecodable
        Initialize_decoded)

lemma Initialize_cong:
  assumes "GPUInfoFileExists w' = GPUInfoFileExists w"
    and "GetGPUInfoJSON w' = GetGPUInfoJSON w"
    and "json_Unmarshal w' = json_Unmarshal w"
  shows "Initialize w' m = Initialize w m"
  unfolding Initialize_def assms by (rule refl)

subsection \<open>The sample worlds, evaluated\<close>

lemma file_world_exists: "GPUInfoFileExists (file_world data)"
  by (simp add: read_defs file_world_def)

lemma file_world_read: "GetGPUInfoJSON (file_world data) = Inr data"
  by (simp add: read_defs file_world_def)

lemma file_world_decoder: "json_Unmarshal (file_world data) = sample_Unmarshal"
  by (simp add: file_world_def)

lemma sample_Unmarshal_snapshot:
  "sample_Unmarshal snapshot_doc NewNvidiaGPUManager =
     (None, \<lparr>DriverVersion = ''450.80.02'', NvidiaDockerVersion = ''2.5.0'',
              GPUIDs = [''GPU-0'', ''GPU-1'']\<rparr>)"
  by (simp add: sample_Unmarshal_def NewNvidiaGPUManager_def)

lemma sample_Unmarshal_driver_only:
  "sample_Unmarshal driver_only_doc NewNvidiaGPUManager =
     (None, \<lparr>DriverVersion = ''450.80.02'', NvidiaDockerVersion = [], GPUIDs = []\<rparr>)"
  by (simp add: sample_Unmarshal_def NewNvidiaGPUManager_def snapshot_doc_def
      driver_only_doc_def)

lemma sample_Unmarshal_empty:
  "sample_Unmarshal empty_doc NewNvidiaGPUManager = (None, NewNvidiaGPUManager)"
  by (simp add: sample_Unmarshal_def snapshot_doc_def driver_only_doc_def empty_doc_def)

lemma sample_Unmarshal_truncated:
  "sample_Unmarshal truncated_doc NewNvidiaGPUManager =
     (Some (ErrOther ''unexpected end of JSON input''), NewNvidiaGPUManager)"
  by (simp add: sample_Unmarshal_def snapshot_doc_def driver_only_doc_def empty_doc_def
      truncated_doc_def)

subsection \<open>Loading a snapshot\<close>

text \<open>
  Claim C1. When the snapshot file exists (\<^verbatim>\<open>os.Stat\<close> succeeds), opens and reads as
  \<open>gpuJSON\<close>, and \<open>gpuJSON\<close> is a valid snapshot, that is \<^verbatim>\<open>json.Unmarshal\<close> decodes it
  without error into \<open>decoded\<close>, then \<^verbatim>\<open>Initialize\<close> returns no error and afterwards
  \<^verbatim>\<open>GetDriverVersion\<close>, \<^verbatim>\<open>GetRuntimeVersion\<close> and \<^verbatim>\<open>GetGPUIDs\<close> return the
  decoded \<open>DriverVersion\<close>, \<open>NvidiaDockerVersion\<close> and \<open>GPUIDs\<close>.
\<close>

theorem Initialize_loads_snapshot:
  assumes "os_Stat w NvidiaGPUInfoFilePath = None"
    and "os_Open w NvidiaGPUInfoFilePath = Inr fd"
    and "ioutil_ReadAll w fd = Inr gpuJSON"
    and "json_Unmarshal w gpuJSON NewNvidiaGPUManager = (None, decoded)"
  shows "fst (Initialize w n) = None
    \<and> GetDriverVersion (snd (Initialize w n)) = DriverVersion decoded
    \<and> GetRuntimeVersion (snd (Initialize w n)) = NvidiaDockerVersion decoded
    \<and> GetGPUIDs (snd (Initialize w n)) = GPUIDs decoded"
proof -
  have "GPUInfoFileExists w"
    using assms(1) by (simp add: GPUInfoFileExists_def CheckForGPUInfoFile_def)
  moreover have "GetGPUInfoJSON w = Inr gpuJSON"
    using assms(2,3) by (rule GetGPUInfoJSON_read)
  ultimately have "Initialize w n = (None, decoded)"
    using assms(4) by (rule Initialize_decoded)
  then show ?thesis by (simp add: store_defs)
qed

text \<open>The example of the specification: the file holds the two-GPU snapshot.\<close>

theorem Initialize_loads_snapshot_witness:
  "fst (Initialize (file_world snapshot_doc) NewNvidiaGPUManager) = None
    \<and> GetDriverVersion (snd (Initialize (file_world snapshot_doc) NewNvidiaGPUManager))
        = ''450.80.02''
    \<and> GetRuntimeVersion (snd (Initialize (file_world snapshot_doc) NewNvidiaGPUManager))
        = ''2.5.0''
    \<and> GetGPUIDs (snd (Initialize (file_world snapshot_doc) NewNvidiaGPUManager))
        = [''GPU-0'', ''GPU-1'']"
proof -
  let ?w = "file_world snapshot_doc"
  have 1: "os_Stat ?w NvidiaGPUInfoFilePath = None" by (simp add: file_world_def)
  have 2: "os_Open ?w NvidiaGPUInfoFilePath = Inr 3" by (simp add: file_world_def)
  have 3: "ioutil_ReadAll ?w 3 = Inr snapshot_doc" by (simp add: file_world_def)
  have 4: "json_Unmarshal ?w snapshot_doc NewNvidiaGPUManager =
      (None, \<lparr>DriverVersion = ''450.80.02'', NvidiaDockerVersion = ''2.5.0'',
               GPUIDs = [''GPU-0'', ''GPU-1'']\<rparr>)"
    by (simp add: file_world_decoder sample_Unmarshal_snapshot)
  show ?thesis
    using Initialize_loads_snapshot [OF 1 2 3 4, of NewNvidiaGPUManager] by simp
qed

subsection \<open>Setters and getters\<close>

text \<open>
  Claim C5. On every store, \<^verbatim>\<open>SetGPUIDs(ids)\<close> followed by \<^verbatim>\<open>GetGPUIDs()\<close> returns
  \<open>ids\<close>, the same elements in the same order; likewise the driver version and the
  runtime version are read back as they were set.
\<close>

theorem set_then_get:
  "GetGPUIDs (SetGPUIDs ids n) = ids
   \<and> GetDriverVersion (SetDriverVersion v n) = v
   \<and> GetRuntimeVersion (SetRuntimeVersion v n) = v"
  by (simp add: store_defs)

text \<open>
  Claim C6. Each setter changes its own field only: \<^verbatim>\<open>SetDriverVersion\<close> leaves the GPU
  identifiers and the runtime version as they were, \<^verbatim>\<open>SetRuntimeVersion\<close> the driver
  version and the GPU identifiers, \<^verbatim>\<open>SetGPUIDs\<close> the two versions. No operation ties
  one field to another: any driver version \<open>d\<close>, runtime version \<open>r\<close> and identifier list
  \<open>ids\<close> can be set together, and an empty identifier list beside a driver version too.
\<close>

theorem setters_frame:
  "GetGPUIDs (SetDriverVersion v n) = GetGPUIDs n
   \<and> GetRuntimeVersion (SetDriverVersion v n) = GetRuntimeVersion n
   \<and> GetDriverVersion (SetRuntimeVersion v n) = GetDriverVersion n
   \<and> GetGPUIDs (SetRuntimeVersion v n) = GetGPUIDs n
   \<and> GetDriverVersion (SetGPUIDs ids n) = GetDriverVersion n
   \<and> GetRuntimeVersion (SetGPUIDs ids n) = GetRuntimeVersion n
   \<and> GetDriverVersion (SetGPUIDs ids (SetRuntimeVersion r (SetDriverVersion d n))) = d
   \<and> GetRuntimeVersion (SetGPUIDs ids (SetRuntimeVersion r (SetDriverVersion d n))) = r
   \<and> GetGPUIDs (SetGPUIDs ids (SetRuntimeVersion r (SetDriverVersion d n))) = ids
   \<and> GetDriverVersion (SetGPUIDs [] (SetDriverVersion d n)) = d
   \<and> GetGPUIDs (SetGPUIDs [] (SetDriverVersion d n)) = []"
  by (simp add: store_defs)

subsection \<open>Initialize without a snapshot, and with a broken one\<close>

text \<open>
  Claim C2. When the snapshot file does not exist (\<^verbatim>\<open>os.Stat\<close> fails with a not-exist
  error), \<^verbatim>\<open>Initialize\<close> on a freshly constructed store returns no error, and
  afterwards \<^verbatim>\<open>GetDriverVersion\<close> and \<^verbatim>\<open>GetRuntimeVersion\<close> return the empty
  string and \<^verbatim>\<open>GetGPUIDs\<close> the empty sequence.
\<close>

theorem Initialize_without_file:
  assumes "os_IsNotExist (os_Stat w NvidiaGPUInfoFilePath)"
  shows "fst (Initialize w NewNvidiaGPUManager) = None
    \<and> GetDriverVersion (snd (Initialize w NewNvidiaGPUManager)) = []
    \<and> GetRuntimeVersion (snd (Initialize w NewNvidiaGPUManager)) = []
    \<and> GetGPUIDs (snd (Initialize w NewNvidiaGPUManager)) = []"
proof -
  have "\<not> GPUInfoFileExists w"
    using assms by (simp add: GPUInfoFileExists_def CheckForGPUInfoFile_def)
  then have "Initialize w NewNvidiaGPUManager = (None, NewNvidiaGPUManager)"
    by (rule Initialize_absent)
  then show ?thesis by (simp add: store_defs NewNvidiaGPUManager_def)
qed

theorem Initialize_without_file_witness:
  "os_IsNotExist (os_Stat no_file_world NvidiaGPUInfoFilePath)
    \<and> fst (Initialize no_file_world NewNvidiaGPUManager) = None
    \<and> GetDriverVersion (snd (Initialize no_file_world NewNvidiaGPUManager)) = []
    \<and> GetRuntimeVersion (snd (Initialize no_file_world NewNvidiaGPUManager)) = []
    \<and> GetGPUIDs (snd (Initialize no_file_world NewNvidiaGPUManager)) = []"
proof -
  have h: "os_IsNotExist (os_Stat no_file_world NvidiaGPUInfoFilePath)"
    by (simp add: no_file_world_def)
  show ?thesis using h Initialize_without_file [OF h] by simp
qed

text \<open>
  Claim C3. When the snapshot file exists, opens and reads as \<open>gpuJSON\<close>, and
  \<^verbatim>\<open>json.Unmarshal\<close> fails on \<open>gpuJSON\<close> (whatever it has written into its own target
  by then), \<^verbatim>\<open>Initialize\<close> returns an error and the store is the store before the
  call: no setter has run on it.
\<close>

theorem Initialize_decode_failure:
  assumes "\<not> os_IsNotExist (os_Stat w NvidiaGPUInfoFilePath)"
    and "os_Open w NvidiaGPUInfoFilePath = Inr fd"
    and "ioutil_ReadAll w fd = Inr gpuJSON"
    and "json_Unmarshal w gpuJSON NewNvidiaGPUManager = (Some err, partial)"
  shows "fst (Initialize w n) \<noteq> None
    \<and> snd (Initialize w n) = n
    \<and> GetDriverVersion (snd (Initialize w n)) = GetDriverVersion n
    \<and> GetRuntimeVersion (snd (Initialize w n)) = GetRuntimeVersion n
    \<and> GetGPUIDs (snd (Initialize w n)) = GetGPUIDs n"
proof -
  have "GPUInfoFileExists w"
    using assms(1) by (simp add: GPUInfoFileExists_def CheckForGPUInfoFile_def)
  moreover have "GetGPUInfoJSON w = Inr gpuJSON"
    using assms(2,3) by (rule GetGPUInfoJSON_read)
  ultimately have
    "Initialize w n = (Some (withMessage err ''could not unmarshal GPU file content''), n)"
    using assms(4) by (rule Initialize_undecodable)
  then show ?thesis by simp
qed

theorem Initialize_decode_failure_witness:
  "fst (Initialize (file_world truncated_doc) used_store) \<noteq> None
    \<and> snd (Initialize (file_world truncated_doc) used_store) = used_store
    \<and> GetDriverVersion (snd (Initialize (file_world truncated_doc) used_store)) = ''418.40.04''
    \<and> GetRuntimeVersion (snd (Initialize (file_world truncated_doc) used_store)) = ''2.0.3''
    \<and> GetGPUIDs (snd (Initialize (file_world truncated_doc) used_store)) = [''GPU-7'']"
proof -
  let ?w = "file_world truncated_doc"
  have 1: "\<not> os_IsNotExist (os_Stat ?w NvidiaGPUInfoFilePath)" by (simp add: file_world_def)
  have 2: "os_Open ?w NvidiaGPUInfoFilePath = Inr 3" by (simp add: file_world_def)
  have 3: "ioutil_ReadAll ?w 3 = Inr truncated_doc" by (simp add: file_world_def)
  have 4: "json_Unmarshal ?w truncated_doc NewNvidiaGPUManager =
      (Some (ErrOther ''unexpected end of JSON input''), NewNvidiaGPUManager)"
    by (simp add: file_world_decoder sample_Unmarshal_truncated)
  show ?thesis
    using Initialize_decode_failure [OF 1 2 3 4, of used_store]
    by (simp add: store_defs used_store_def)
qed

text \<open>
  Claim C4. \<^verbatim>\<open>Initialize\<close> returns an error exactly when the existence check passes and
  either the read fails or the decoding fails. A failed read comes back as the error of
  the read annotated with "could not read GPU file content", a failed decoding as the
  error of the decoder annotated with "could not unmarshal GPU file content". In every
  other case \<^verbatim>\<open>Initialize\<close> returns no error; a file that is not there is no error.
\<close>

theorem Initialize_fails_iff:
  "(fst (Initialize w n) \<noteq> None) =
     (GPUInfoFileExists w \<and>
       ((\<exists>err. GetGPUInfoJSON w = Inl err) \<or>
        (\<exists>gpuJSON err v. GetGPUInfoJSON w = Inr gpuJSON \<and>
           json_Unmarshal w gpuJSON NewNvidiaGPUManager = (Some err, v))))
   \<and> (\<forall>err. GPUInfoFileExists w \<and> GetGPUInfoJSON w = Inl err \<longrightarrow>
         fst (Initialize w n) = Some (withMessage err ''could not read GPU file content''))
   \<and> (\<forall>gpuJSON err v. GPUInfoFileExists w \<and> GetGPUInfoJSON w = Inr gpuJSON \<and>
         json_Unmarshal w gpuJSON NewNvidiaGPUManager = (Some err, v) \<longrightarrow>
         fst (Initialize w n) = Some (withMessage err ''could not unmarshal GPU file content''))
   \<and> (os_IsNotExist (os_Stat w NvidiaGPUInfoFilePath) \<longrightarrow> fst (Initialize w n) = None)"
proof (intro conjI allI impI)
  show "(fst (Initialize w n) \<noteq> None) =
     (GPUInfoFileExists w \<and>
       ((\<exists>err. GetGPUInfoJSON w = Inl err) \<or>
        (\<exists>gpuJSON err v. GetGPUInfoJSON w = Inr gpuJSON \<and>
           json_Unmarshal w gpuJSON NewNvidiaGPUManager = (Some err, v))))"
    by (cases w n rule: Initialize_cases) auto
next
  fix err assume "GPUInfoFileExists w \<and> GetGPUInfoJSON w = Inl err"
  then show "fst (Initialize w n) = Some (withMessage err ''could not read GPU file content'')"
    by (simp add: Initialize_unreadable)
next
  fix gpuJSON err v
  assume "GPUInfoFileExists w \<and> GetGPUInfoJSON w = Inr gpuJSON \<and>
         json_Unmarshal w gpuJSON NewNvidiaGPUManager = (Some err, v)"
  then show
    "fst (Initialize w n) = Some (withMessage err ''could not unmarshal GPU file content'')"
    by (simp add: Initialize_undecodable)
next
  assume "os_IsNotExist (os_Stat w NvidiaGPUInfoFilePath)"
  then show "fst (Initialize w n) = None"
    by (simp add: Initialize_absent GPUInfoFileExists_def CheckForGPUInfoFile_def)
qed

text \<open>
  A directory in place of the file gives the read error, a truncated document the
  decoding error, and no file gives no error.
\<close>

theorem Initialize_fails_iff_witness:
  "fst (Initialize directory_world used_store)
      = Some (withMessage (ErrOther ''is a directory'') ''could not read GPU file content'')
   \<and> fst (Initialize (file_world truncated_doc) used_store)
      = Some (withMessage (ErrOther ''unexpected end of JSON input'')
          ''could not unmarshal GPU file content'')
   \<and> fst (Initialize no_file_world used_store) = None"
proof -
  have a: "GPUInfoFileExists directory_world
      \<and> GetGPUInfoJSON directory_world = Inl (ErrOther ''is a directory'')"
    by (simp add: read_defs directory_world_def)
  have b: "GPUInfoFileExists (file_world truncated_doc)
      \<and> GetGPUInfoJSON (file_world truncated_doc) = Inr truncated_doc
      \<and> json_Unmarshal (file_world truncated_doc) truncated_doc NewNvidiaGPUManager
          = (Some (ErrOther ''unexpected end of JSON input''), NewNvidiaGPUManager)"
    by (simp add: file_world_exists file_world_read file_world_decoder
        sample_Unmarshal_truncated)
  have c: "os_IsNotExist (os_Stat no_file_world NvidiaGPUInfoFilePath)"
    by (simp add: no_file_world_def)
  show ?thesis
    using a b c Initialize_fails_iff [of directory_world used_store]
      Initialize_fails_iff [of "file_world truncated_doc" used_store]
      Initialize_fails_iff [of no_file_world used_store]
    by blast
qed

subsection \<open>Calling Initialize again\<close>

text \<open>
  Claim C7. \<^verbatim>\<open>Initialize\<close> has no guard against a second call. When the second call
  finds the world \<open>w'\<close> with the file there or not there as in \<open>w\<close>, reading as in \<open>w\<close>
  and decoded as in \<open>w\<close>, it returns what the first call returned and leaves the store
  as the first call left it. It is no no-op: it reads the file again, so when the second
  call finds a file that reads as \<open>gpuJSON\<close> and decodes to \<open>v\<close>, the store is \<open>v\<close>
  afterwards, whatever the first call did.
\<close>

theorem Initialize_twice:
  "(os_IsNotExist (os_Stat w' NvidiaGPUInfoFilePath)
        = os_IsNotExist (os_Stat w NvidiaGPUInfoFilePath)
      \<and> GetGPUInfo w' = GetGPUInfo w
      \<and> json_Unmarshal w' = json_Unmarshal w
      \<longrightarrow> fst (Initialize w' (snd (Initialize w n))) = fst (Initialize w n)
        \<and> snd (Initialize w' (snd (Initialize w n))) = snd (Initialize w n))
   \<and> (\<forall>gpuJSON v. GPUInfoFileExists w' \<and> GetGPUInfoJSON w' = Inr gpuJSON
        \<and> json_Unmarshal w' gpuJSON NewNvidiaGPUManager = (None, v)
      \<longrightarrow> Initialize w' (snd (Initialize w n)) = (None, v))"
proof (intro conjI allI impI)
  assume same: "os_IsNotExist (os_Stat w' NvidiaGPUInfoFilePath)
        = os_IsNotExist (os_Stat w NvidiaGPUInfoFilePath)
      \<and> GetGPUInfo w' = GetGPUInfo w
      \<and> json_Unmarshal w' = json_Unmarshal w"
  have "Initialize w' (snd (Initialize w n)) = Initialize w (snd (Initialize w n))"
  proof (rule Initialize_cong)
    show "GPUInfoFileExists w' = GPUInfoFileExists w"
      using same by (simp add: GPUInfoFileExists_def CheckForGPUInfoFile_def)
    show "GetGPUInfoJSON w' = GetGPUInfoJSON w"
      using same by (simp add: GetGPUInfoJSON_def)
    show "json_Unmarshal w' = json_Unmarshal w"
      using same by simp
  qed
  then have eq: "Initialize w' (snd (Initialize w n)) = Initialize w n"
    by (simp add: Initialize_same_world)
  show "fst (Initialize w' (snd (Initialize w n))) = fst (Initialize w n)"
    by (simp add: eq)
  show "snd (Initialize w' (snd (Initialize w n))) = snd (Initialize w n)"
    by (simp add: eq)
next
  fix gpuJSON v
  assume "GPUInfoFileExists w' \<and> GetGPUInfoJSON w' = Inr gpuJSON
        \<and> json_Unmarshal w' gpuJSON NewNvidiaGPUManager = (None, v)"
  then show "Initialize w' (snd (Initialize w n)) = (None, v)"
    by (simp add: Initialize_decoded)
qed

text \<open>
  Twice on the same file: the second call gives the result and the store of the first.
  First without a file and then with one: the second call loads the file.
\<close>

theorem Initialize_twice_witness:
  "fst (Initialize (file_world snapshot_doc) (snd (Initialize (file_world snapshot_doc) used_store)))
      = fst (Initialize (file_world snapshot_doc) used_store)
   \<and> snd (Initialize (file_world snapshot_doc) (snd (Initialize (file_world snapshot_doc) used_store)))
      = snd (Initialize (file_world snapshot_doc) used_store)
   \<and> Initialize (file_world snapshot_doc) (snd (Initialize no_file_world used_store))
      = (None, \<lparr>DriverVersion = ''450.80.02'', NvidiaDockerVersion = ''2.5.0'',
                GPUIDs = [''GPU-0'', ''GPU-1'']\<rparr>)
   \<and> snd (Initialize no_file_world used_store) = used_store"
proof -
  let ?w = "file_world snapshot_doc"
  have b: "GPUInfoFileExists ?w \<and> GetGPUInfoJSON ?w = Inr snapshot_doc
      \<and> json_Unmarshal ?w snapshot_doc NewNvidiaGPUManager
          = (None, \<lparr>DriverVersion = ''450.80.02'', NvidiaDockerVersion = ''2.5.0'',
                     GPUIDs = [''GPU-0'', ''GPU-1'']\<rparr>)"
    by (simp add: file_world_exists file_world_read file_world_decoder
        sample_Unmarshal_snapshot)
  have c: "snd (Initialize no_file_world used_store) = used_store"
    by (simp add: Initialize_absent read_defs no_file_world_def)
  show ?thesis
    using b c Initialize_twice [of ?w ?w used_store]
      Initialize_twice [of ?w no_file_world used_store]
    by blast
qed

subsection \<open>Snapshots with missing keys\<close>

text \<open>
  Claim C9. When the snapshot file exists, opens and reads as \<open>gpuJSON\<close>, and
  \<^verbatim>\<open>json.Unmarshal\<close> decodes \<open>gpuJSON\<close> without error, \<^verbatim>\<open>Initialize\<close> succeeds and
  overwrites every field of the store with the decoded value, whatever the store held.
  The decoder writes into a fresh zero value, so a field it does not touch (its key is
  missing, as every key is in the empty object) is reset to the empty string or the empty
  sequence.
\<close>

theorem Initialize_missing_keys:
  assumes "os_Stat w NvidiaGPUInfoFilePath = None"
    and "os_Open w NvidiaGPUInfoFilePath = Inr fd"
    and "ioutil_ReadAll w fd = Inr gpuJSON"
    and "json_Unmarshal w gpuJSON NewNvidiaGPUManager = (None, decoded)"
  shows "Initialize w n = (None, decoded)
    \<and> (DriverVersion decoded = DriverVersion NewNvidiaGPUManager
        \<longrightarrow> GetDriverVersion (snd (Initialize w n)) = [])
    \<and> (NvidiaDockerVersion decoded = NvidiaDockerVersion NewNvidiaGPUManager
        \<longrightarrow> GetRuntimeVersion (snd (Initialize w n)) = [])
    \<and> (GPUIDs decoded = GPUIDs NewNvidiaGPUManager
        \<longrightarrow> GetGPUIDs (snd (Initialize w n)) = [])"
proof -
  have "GPUInfoFileExists w"
    using assms(1) by (simp add: GPUInfoFileExists_def CheckForGPUInfoFile_def)
  moreover have "GetGPUInfoJSON w = Inr gpuJSON"
    using assms(2,3) by (rule GetGPUInfoJSON_read)
  ultimately have "Initialize w n = (None, decoded)"
    using assms(4) by (rule Initialize_decoded)
  then show ?thesis by (simp add: store_defs NewNvidiaGPUManager_def)
qed

text \<open>
  On a store that holds values: the empty object resets all three fields, and a
  document with the driver version alone resets the other two.
\<close>

theorem Initialize_missing_keys_witness:
  "Initialize (file_world empty_doc) used_store
      = (None, \<lparr>DriverVersion = [], NvidiaDockerVersion = [], GPUIDs = []\<rparr>)
   \<and> Initialize (file_world driver_only_doc) used_store
      = (None, \<lparr>DriverVersion = ''450.80.02'', NvidiaDockerVersion = [], GPUIDs = []\<rparr>)
   \<and> GetRuntimeVersion (snd (Initialize (file_world driver_only_doc) used_store)) = []
   \<and> GetGPUIDs (snd (Initialize (file_world driver_only_doc) used_store)) = []
   \<and> GetRuntimeVersion used_store = ''2.0.3''
   \<and> GetGPUIDs used_store = [''GPU-7'']"
proof -
  have 1: "os_Stat (file_world data) NvidiaGPUInfoFilePath = None" for data
    by (simp add: file_world_def)
  have 2: "os_Open (file_world data) NvidiaGPUInfoFilePath = Inr 3" for data
    by (simp add: file_world_def)
  have 3: "ioutil_ReadAll (file_world data) 3 = Inr data" for data
    by (simp add: file_world_def)
  have e: "json_Unmarshal (file_world empty_doc) empty_doc NewNvidiaGPUManager
      = (None, \<lparr>DriverVersion = [], NvidiaDockerVersion = [], GPUIDs = []\<rparr>)"
    using sample_Unmarshal_empty by (simp add: file_world_decoder NewNvidiaGPUManager_def)
  have d: "json_Unmarshal (file_world driver_only_doc) driver_only_doc NewNvidiaGPUManager
      = (None, \<lparr>DriverVersion = ''450.80.02'', NvidiaDockerVersion = [], GPUIDs = []\<rparr>)"
    by (simp add: file_world_decoder sample_Unmarshal_driver_only)
  show ?thesis
    using Initialize_missing_keys [OF 1 2 3 e, of used_store]
      Initialize_missing_keys [OF 1 2 3 d, of used_store]
    by (simp add: store_defs used_store_def NewNvidiaGPUManager_def)
qed

subsection \<open>A stat error that is not a not-exist error\<close>

text \<open>
  Claim C10. When \<^verbatim>\<open>os.Stat\<close> fails with an error that is not a not-exist error (the
  directory cannot be searched, say), the existence check answers that the file is
  there. \<^verbatim>\<open>Initialize\<close> then does not succeed silently: it goes on to the read and
  returns no error only if the read has succeeded. When the read fails, as it does in
  that situation, \<^verbatim>\<open>Initialize\<close> returns the error of the read annotated with
  "could not read GPU file content" and leaves the store as it was.
\<close>

theorem stat_error_counts_as_present:
  assumes "os_Stat w NvidiaGPUInfoFilePath = Some e"
    and "\<not> os_IsNotExist (Some e)"
  shows "CheckForGPUInfoFile w
    \<and> (\<forall>err. GetGPUInfo w = Inl err \<longrightarrow>
          Initialize w n = (Some (withMessage err ''could not read GPU file content''), n))
    \<and> (fst (Initialize w n) = None \<longrightarrow> (\<exists>gpuJSON. GetGPUInfo w = Inr gpuJSON))"
proof (intro conjI allI impI)
  show present: "CheckForGPUInfoFile w"
    using assms by (simp add: CheckForGPUInfoFile_def)
  then have ex: "GPUInfoFileExists w"
    by (simp add: GPUInfoFileExists_def)
  show "Initialize w n = (Some (withMessage err ''could not read GPU file content''), n)"
    if "GetGPUInfo w = Inl err" for err
    using ex that by (simp add: Initialize_unreadable GetGPUInfoJSON_def)
  show "\<exists>gpuJSON. GetGPUInfo w = Inr gpuJSON" if ok: "fst (Initialize w n) = None"
  proof (cases "GetGPUInfo w")
    case (Inl err)
    then have "fst (Initialize w n) \<noteq> None"
      using ex by (simp add: Initialize_unreadable GetGPUInfoJSON_def)
    with ok show ?thesis by simp
  next
    case (Inr gpuJSON)
    then show ?thesis by blast
  qed
qed

text \<open>Permission denied on the directory, on a store that holds values.\<close>

theorem stat_error_counts_as_present_witness:
  "os_Stat denied_world NvidiaGPUInfoFilePath = Some ErrPermission
   \<and> CheckForGPUInfoFile denied_world
   \<and> GetGPUInfo denied_world = Inl ErrPermission
   \<and> Initialize denied_world used_store
      = (Some (withMessage ErrPermission ''could not read GPU file content''), used_store)"
proof -
  have 1: "os_Stat denied_world NvidiaGPUInfoFilePath = Some ErrPermission"
    by (simp add: denied_world_def)
  have 2: "\<not> os_IsNotExist (Some ErrPermission)" by simp
  have 3: "GetGPUInfo denied_world = Inl ErrPermission"
    by (simp add: GetGPUInfo_def denied_world_def)
  show ?thesis
    using 1 3 stat_error_counts_as_present [OF 1 2, of used_store] by blast
qed

end
